theory Spec2Isabelle
  imports Complex_Main "HOL-Library.Log_Nat" "HOL-Library.Word"
begin

section \<open>Variable kinds\<close>

text \<open>
  The semantic column kinds imported at the top of \<^verbatim>\<open>transform_primitive.py\<close> from
  \<^verbatim>\<open>featuretools.variable_types\<close>. The constructor for Python's \<^verbatim>\<open>Id\<close> is
  written \<open>Id_var\<close>, since \<open>Id\<close> is the identity relation of HOL.
\<close>

datatype variable_type =
    Variable | Numeric | Boolean | Discrete | Categorical | Ordinal | Id_var
  | Text | Datetime | TimeIndex | DatetimeTimeIndex | Timedelta

text \<open>
  Modelled from the spec: the class hierarchy of \<^verbatim>\<open>featuretools.variable_types\<close> is not
  part of the source file. The spec gives the taxonomy as
  Numeric, Boolean, Discrete {Categorical, Ordinal, Id}, Text,
  Datetime {TimeIndex {DatetimeTimeIndex}}, Timedelta, every kind being a Variable.
  \<open>mro k\<close> lists \<open>k\<close> and its ancestors, nearest first.
\<close>

fun mro :: "variable_type \<Rightarrow> variable_type list" where
  "mro Variable = [Variable]"
| "mro Numeric = [Numeric, Variable]"
| "mro Boolean = [Boolean, Variable]"
| "mro Discrete = [Discrete, Variable]"
| "mro Categorical = [Categorical, Discrete, Variable]"
| "mro Ordinal = [Ordinal, Discrete, Variable]"
| "mro Id_var = [Id_var, Discrete, Variable]"
| "mro Text = [Text, Variable]"
| "mro Datetime = [Datetime, Variable]"
| "mro TimeIndex = [TimeIndex, Datetime, Variable]"
| "mro DatetimeTimeIndex = [DatetimeTimeIndex, TimeIndex, Datetime, Variable]"
| "mro Timedelta = [Timedelta, Variable]"

definition issubclass :: "variable_type \<Rightarrow> variable_type \<Rightarrow> bool" where
  "issubclass k b = (b \<in> set (mro k))"

section \<open>Errors\<close>

text \<open>
  Every \<^verbatim>\<open>assert\<close> and every failing attribute access of the source is a value of
  this type. \<open>AssertionError\<close> carries the message of the assertion.
  \<open>ArgumentCoercionError\<close> and \<open>TypeContractViolation\<close> are the failures the spec
  names for the base class, whose source is not in the file.
\<close>

datatype error =
    AssertionError string
  | AttributeError
  | TypeError
  | ValueError
  | OverflowError
  | IndexError
  | ArgumentCoercionError
  | TypeContractViolation

section \<open>Feature nodes\<close>

text \<open>
  A base feature as the primitives of this file consume it: its owning entity, its
  variable kind, its default value, its expanding flag and the string that its
  \<^verbatim>\<open>get_name()\<close> returns.
\<close>

record ('e, 'd) feature =
  entity :: 'e
  variable_type :: variable_type
  default_value :: 'd
  expanding :: bool
  feature_name :: string

text \<open>
  A constructor argument: a Feature node, a raw column (given with the Feature node that
  wraps it), or anything else.
\<close>

datatype ('e, 'd) arg =
    Feature "('e, 'd) feature"
  | RawColumn "('e, 'd) feature"
  | NotCoercible

text \<open>
  Modelled from the spec: \<^verbatim>\<open>PrimitiveBase._check_feature\<close> is inherited from
  \<^verbatim>\<open>primitive_base.py\<close>, which is not in the source file. The spec: an argument that
  is not already a Feature is wrapped as a raw-column reference, a Feature is used as it
  is, and an argument that is neither fails.
\<close>

fun check_feature :: "('e, 'd) arg \<Rightarrow> error + ('e, 'd) feature" where
  "check_feature (Feature f) = Inr f"
| "check_feature (RawColumn f) = Inr f"
| "check_feature NotCoercible = Inl ArgumentCoercionError"

text \<open>
  The list comprehension \<^verbatim>\<open>[self._check_feature(f) for f in base_features]\<close>: the
  first failing argument raises.
\<close>

fun check_features :: "('e, 'd) arg list \<Rightarrow> error + ('e, 'd) feature list" where
  "check_features [] = Inr []"
| "check_features (a # as) =
     (case check_feature a of
        Inl e \<Rightarrow> Inl e
      | Inr f \<Rightarrow> (case check_features as of Inl e \<Rightarrow> Inl e | Inr fs \<Rightarrow> Inr (f # fs)))"

section \<open>Primitive classes\<close>

text \<open>
  The classes of the file. \<open>Not_primitive\<close> is the class \<^verbatim>\<open>Not\<close>.
\<close>

datatype primitive =
    IsNull | Absolute | TimeSincePrevious
  | DatetimeUnitBasePrimitive | TimedeltaUnitBasePrimitive
  | Day | Days | Hour | Hours | Second | Seconds | Minute | Minutes
  | Week | Weeks | Month | Months | Year | Years
  | Weekend | Weekday | TimeSince | DaysSince | IsIn | Diff | Not_primitive | Percentile

text \<open>The class attribute \<^verbatim>\<open>name\<close>; \<open>None\<close> is Python's \<^verbatim>\<open>None\<close>.\<close>

fun name :: "primitive \<Rightarrow> string option" where
  "name IsNull = Some ''is_null''"
| "name Absolute = Some ''absolute''"
| "name TimeSincePrevious = Some ''time_since_previous''"
| "name DatetimeUnitBasePrimitive = None"
| "name TimedeltaUnitBasePrimitive = None"
| "name Day = Some ''day''"
| "name Days = Some ''days''"
| "name Hour = Some ''hour''"
| "name Hours = Some ''hours''"
| "name Second = Some ''second''"
| "name Seconds = Some ''seconds''"
| "name Minute = Some ''minute''"
| "name Minutes = Some ''minutes''"
| "name Week = Some ''week''"
| "name Weeks = Some ''weeks''"
| "name Month = Some ''month''"
| "name Months = Some ''months''"
| "name Year = Some ''year''"
| "name Years = Some ''years''"
| "name Weekend = Some ''is_weekend''"
| "name Weekday = Some ''weekday''"
| "name TimeSince = Some ''time_since''"
| "name DaysSince = Some ''days_since''"
| "name IsIn = Some ''isin''"
| "name Diff = Some ''diff''"
| "name Not_primitive = Some ''not''"
| "name Percentile = Some ''percentile''"

text \<open>
  The class attribute \<^verbatim>\<open>input_types\<close>, as a list of alternative contracts: a class
  that declares one contract has a one-element list, \<^verbatim>\<open>TimeSince\<close> declares two.
\<close>

fun input_types :: "primitive \<Rightarrow> variable_type list list" where
  "input_types IsNull = [[Variable]]"
| "input_types Absolute = [[Numeric]]"
| "input_types TimeSincePrevious = [[DatetimeTimeIndex, Id_var]]"
| "input_types TimeSince = [[DatetimeTimeIndex], [Datetime]]"
| "input_types DaysSince = [[DatetimeTimeIndex]]"
| "input_types IsIn = [[Variable]]"
| "input_types Diff = [[Numeric, Id_var]]"
| "input_types Not_primitive = [[Boolean]]"
| "input_types Percentile = [[Numeric]]"
| "input_types Weekend = [[Datetime]]"
| "input_types TimedeltaUnitBasePrimitive = [[Timedelta]]"
| "input_types Days = [[Timedelta]]"
| "input_types Hours = [[Timedelta]]"
| "input_types Seconds = [[Timedelta]]"
| "input_types Minutes = [[Timedelta]]"
| "input_types Weeks = [[Timedelta]]"
| "input_types Months = [[Timedelta]]"
| "input_types Years = [[Timedelta]]"
| "input_types _ = [[Datetime]]"

section \<open>Primitive instances\<close>

text \<open>
  The attributes of \<^verbatim>\<open>self\<close> that the file reads or writes. \<open>self_expanding\<close> is
  \<^verbatim>\<open>self.expanding\<close> and \<open>self_entity\<close> the entity handed to the base class.
  \<open>list_of_outputs\<close> holds Python integers.
\<close>

record ('e, 'd) transform_primitive =
  cls :: primitive
  base_features :: "('e, 'd) feature list"
  self_expanding :: bool
  self_entity :: "'e option"
  group_feature :: "('e, 'd) feature option"
  list_of_outputs :: "int list option"

text \<open>
  The object before any \<^verbatim>\<open>__init__\<close> has run: no instance attribute is set, and
  \<^verbatim>\<open>expanding\<close> reads the class default of the base class, which the spec gives as
  false unless a base feature is expanding.
\<close>

definition new :: "primitive \<Rightarrow> ('e, 'd) transform_primitive" where
  "new c = \<lparr>cls = c, base_features = [], self_expanding = False, self_entity = None,
            group_feature = None, list_of_outputs = None\<rparr>"

text \<open>
  \<^verbatim>\<open>PrimitiveBase.__init__\<close> is not in the source file. The initialisers below take
  its validation as the parameter \<open>super_init\<close>: given the object, the entity and the
  base features, it returns the error it raises, or \<open>None\<close>.
\<close>

type_synonym ('e, 'd) base_init =
  "('e, 'd) transform_primitive \<Rightarrow> 'e \<Rightarrow> ('e, 'd) feature list \<Rightarrow> error option"

text \<open>
  Modelled from the spec: the validation of \<^verbatim>\<open>PrimitiveBase.__init__\<close>, which is not in
  the source file. The spec: every base feature must satisfy at least one declared
  input-type contract at its argument position, by the subtype relation.
\<close>

definition PrimitiveBase_init :: "('e, 'd) base_init" where
  "PrimitiveBase_init self e bfs =
     (if list_ex (\<lambda>t. list_all (\<lambda>(v, f). issubclass (variable_type f) v) (zip t bfs))
           (input_types (cls self))
      then None else Some TypeContractViolation)"

text \<open>
  \<^verbatim>\<open>TransformPrimitive.__init__\<close> (lines 19 to 26). \<open>length (remdups xs)\<close> is
  \<^verbatim>\<open>len(set(xs))\<close>. On success the base class fixes the owning entity.
\<close>

definition TransformPrimitive_init ::
  "('e, 'd) base_init \<Rightarrow> ('e, 'd) transform_primitive \<Rightarrow> ('e, 'd) arg list
     \<Rightarrow> error + ('e, 'd) transform_primitive" where
  "TransformPrimitive_init super_init self args =
     (case check_features args of
        Inl e \<Rightarrow> Inl e
      | Inr bfs \<Rightarrow>
          (let self1 = self\<lparr>base_features := bfs\<rparr>;
               self2 = (if list_ex expanding bfs then self1\<lparr>self_expanding := True\<rparr>
                        else self1)
           in if length (remdups (map entity bfs)) \<noteq> 1
              then Inl (AssertionError ''More than one entity for base features'')
              else (case super_init self2 (entity (hd bfs)) bfs of
                      Some e \<Rightarrow> Inl e
                    | None \<Rightarrow> Inr (self2\<lparr>self_entity := Some (entity (hd bfs))\<rparr>))))"

text \<open>\<^verbatim>\<open>TimeSincePrevious.__init__\<close> (lines 65 to 78).\<close>

definition TimeSincePrevious_init ::
  "('e, 'd) base_init \<Rightarrow> ('e, 'd) transform_primitive \<Rightarrow> ('e, 'd) arg \<Rightarrow> ('e, 'd) arg
     \<Rightarrow> error + ('e, 'd) transform_primitive" where
  "TimeSincePrevious_init super_init self time_index group_arg =
     (case check_feature group_arg of
        Inl e \<Rightarrow> Inl e
      | Inr gf \<Rightarrow>
          if \<not> issubclass (variable_type gf) Discrete
          then Inl (AssertionError ''group_feature must have a discrete variable_type'')
          else TransformPrimitive_init super_init (self\<lparr>group_feature := Some gf\<rparr>)
                 [time_index, Feature gf])"

text \<open>\<^verbatim>\<open>IsIn.__init__\<close> (lines 260 to 262).\<close>

definition IsIn_init ::
  "('e, 'd) base_init \<Rightarrow> ('e, 'd) transform_primitive \<Rightarrow> ('e, 'd) arg \<Rightarrow> int list option
     \<Rightarrow> error + ('e, 'd) transform_primitive" where
  "IsIn_init super_init self base_feature los =
     TransformPrimitive_init super_init (self\<lparr>list_of_outputs := los\<rparr>) [base_feature]"

text \<open>\<^verbatim>\<open>Diff.__init__\<close> (lines 286 to 296).\<close>

definition Diff_init ::
  "('e, 'd) base_init \<Rightarrow> ('e, 'd) transform_primitive \<Rightarrow> ('e, 'd) arg \<Rightarrow> ('e, 'd) arg
     \<Rightarrow> error + ('e, 'd) transform_primitive" where
  "Diff_init super_init self base_feature group_arg =
     (case check_feature group_arg of
        Inl e \<Rightarrow> Inl e
      | Inr gf \<Rightarrow>
          TransformPrimitive_init super_init (self\<lparr>group_feature := Some gf\<rparr>)
            [base_feature, group_arg])"

section \<open>Display names\<close>

text \<open>
  \<^verbatim>\<open>str.upper\<close> on the characters the class names are written in: the letters a to z
  become A to Z, every other ASCII character is unchanged.
\<close>

definition upper_char :: "char \<Rightarrow> char" where
  "upper_char c =
     (case map_of (zip ''abcdefghijklmnopqrstuvwxyz'' ''ABCDEFGHIJKLMNOPQRSTUVWXYZ'') c of
        None \<Rightarrow> c
      | Some u \<Rightarrow> u)"

definition upper :: "string \<Rightarrow> string" where
  "upper s = map upper_char s"

text \<open>\<^verbatim>\<open>sep.join(xs)\<close>.\<close>

fun join :: "string \<Rightarrow> string list \<Rightarrow> string" where
  "join sep [] = []"
| "join sep [x] = x"
| "join sep (x # y # ys) = x @ sep @ join sep (y # ys)"

text \<open>
  \<^verbatim>\<open>TransformPrimitive._get_name\<close> (lines 28 to 32). \<^verbatim>\<open>self.name.upper()\<close> on a
  class whose \<^verbatim>\<open>name\<close> is \<^verbatim>\<open>None\<close> raises AttributeError.
\<close>

definition TransformPrimitive_get_name :: "('e, 'd) transform_primitive \<Rightarrow> error + string" where
  "TransformPrimitive_get_name self =
     (case name (cls self) of
        None \<Rightarrow> Inl AttributeError
      | Some n \<Rightarrow>
          Inr (upper n @ ''('' @ join '', '' (map feature_name (base_features self)) @ '')''))"

text \<open>\<^verbatim>\<open>TimeSincePrevious._get_name\<close> (lines 80 to 81).\<close>

definition TimeSincePrevious_get_name :: "('e, 'd) transform_primitive \<Rightarrow> error + string" where
  "TimeSincePrevious_get_name self =
     (case group_feature self of
        None \<Rightarrow> Inl AttributeError
      | Some gf \<Rightarrow> Inr (''time_since_previous_by_'' @ feature_name gf))"

text \<open>
  \<^verbatim>\<open>str\<close> of a Python integer, of a list of integers and of \<^verbatim>\<open>None\<close>, for
  \<^verbatim>\<open>IsIn._get_name\<close>.
\<close>

fun str_nat :: "nat \<Rightarrow> string" where
  "str_nat n =
     (if n < 10 then [char_of (48 + n)] else str_nat (n div 10) @ [char_of (48 + n mod 10)])"

definition str_int :: "int \<Rightarrow> string" where
  "str_int i = (if i < 0 then ''-'' @ str_nat (nat (- i)) else str_nat (nat i))"

definition str_list :: "int list option \<Rightarrow> string" where
  "str_list los =
     (case los of
        None \<Rightarrow> ''None''
      | Some xs \<Rightarrow> ''['' @ join '', '' (map str_int xs) @ '']'')"

text \<open>\<^verbatim>\<open>IsIn._get_name\<close> (lines 271 to 273).\<close>

definition IsIn_get_name :: "('e, 'd) transform_primitive \<Rightarrow> error + string" where
  "IsIn_get_name self =
     (case base_features self of
        [] \<Rightarrow> Inl IndexError
      | f # _ \<Rightarrow> Inr (feature_name f @ ''.isin('' @ str_list (list_of_outputs self) @ '')''))"

text \<open>\<^verbatim>\<open>Diff._get_name\<close> (lines 298 to 300).\<close>

definition Diff_get_name :: "('e, 'd) transform_primitive \<Rightarrow> error + string" where
  "Diff_get_name self =
     (case base_features self of
        [] \<Rightarrow> Inl IndexError
      | f # _ \<Rightarrow>
          (case group_feature self of
             None \<Rightarrow> Inl AttributeError
           | Some gf \<Rightarrow>
               (case name (cls self) of
                  None \<Rightarrow> Inl AttributeError
                | Some n \<Rightarrow>
                    Inr (upper n @ ''('' @ (feature_name f @ '' by '' @ feature_name gf)
                           @ '')''))))"

text \<open>\<^verbatim>\<open>Not._get_name\<close> (lines 316 to 317).\<close>

definition Not_get_name :: "('e, 'd) transform_primitive \<Rightarrow> error + string" where
  "Not_get_name self =
     (case base_features self of
        [] \<Rightarrow> Inl IndexError
      | f # _ \<Rightarrow> Inr (''NOT('' @ feature_name f @ '')''))"

text \<open>The classes that define \<^verbatim>\<open>_get_name\<close> themselves.\<close>

definition overrides_get_name :: "primitive \<Rightarrow> bool" where
  "overrides_get_name c = (c \<in> {TimeSincePrevious, IsIn, Diff, Not_primitive})"

text \<open>
  Modelled from the spec: \<^verbatim>\<open>PrimitiveBase.get_name\<close> is not in the source file. The
  spec: it returns the name computed by \<^verbatim>\<open>_get_name\<close>, which is resolved on the class
  of the object.
\<close>

definition get_name :: "('e, 'd) transform_primitive \<Rightarrow> error + string" where
  "get_name self =
     (if cls self = TimeSincePrevious then TimeSincePrevious_get_name self
      else if cls self = IsIn then IsIn_get_name self
      else if cls self = Diff then Diff_get_name self
      else if cls self = Not_primitive then Not_get_name self
      else TransformPrimitive_get_name self)"

section \<open>Default value\<close>

text \<open>
  The property \<^verbatim>\<open>TransformPrimitive.default_value\<close> (lines 34 to 36). It has a getter
  only: reading indexes \<^verbatim>\<open>base_features\<close>, assigning raises AttributeError.
\<close>

definition TransformPrimitive_default_value :: "('e, 'd) transform_primitive \<Rightarrow> error + 'd" where
  "TransformPrimitive_default_value self =
     (case base_features self of [] \<Rightarrow> Inl IndexError | f # _ \<Rightarrow> Inr (default_value f))"

definition set_default_value ::
  "('e, 'd) transform_primitive \<Rightarrow> 'd \<Rightarrow> error + ('e, 'd) transform_primitive" where
  "set_default_value self v = Inl AttributeError"

section \<open>Arrays and machine numbers\<close>

text \<open>
  An array is a list of optional values: \<open>None\<close> is the missing-value sentinel (NaN for
  numbers, NaT for times). A datetime is its count of nanoseconds since the epoch and a
  timedelta its count of nanoseconds, as pandas stores them.
\<close>

type_synonym 'a array = "'a option list"

text \<open>
  A float64 value that is not NaN: a rational with a 53-bit significand, or an infinity.
  The two zeros are not told apart. NaN is the \<open>None\<close> of an array.
\<close>

datatype float64 = Finite rat | PlusInf | MinusInf

text \<open>Rounding to the nearest integer, a tie to the even one.\<close>

definition round_half_even :: "rat \<Rightarrow> int" where
  "round_half_even x =
     (let f = \<lfloor>x\<rfloor>; r = x - of_int f
      in if r < 1 / 2 then f else if 1 / 2 < r then f + 1 else if even f then f else f + 1)"

text \<open>The exponent of the power of two at or below a positive rational.\<close>

definition ilog2 :: "rat \<Rightarrow> int" where
  "ilog2 x =
     (if 1 \<le> x then bitlen \<lfloor>x\<rfloor> - 1
      else (let k = bitlen \<lfloor>1 / x\<rfloor>
            in if x * 2 ^ nat (k - 1) = 1 then 1 - k else - k))"

text \<open>
  The float64 nearest to a rational (round to nearest, ties to even): the significand
  has 53 bits, the least exponent of a unit in the last place is -1074 (subnormal
  numbers), and a result of magnitude 2 ^ 1024 or more is an infinity.
\<close>

definition float64_round :: "rat \<Rightarrow> float64" where
  "float64_round x =
     (if x = 0 then Finite 0
      else (let e = max (ilog2 \<bar>x\<bar> - 52) (- 1074);
                v = of_int (round_half_even (\<bar>x\<bar> / 2 powi e)) * 2 powi e
            in if 2 ^ 1024 \<le> v then (if 0 < x then PlusInf else MinusInf)
               else Finite (sgn x * v)))"

text \<open>
  A number of a column as a float64: an integer column is converted to float64 before
  floating-point arithmetic, a float64 column is unchanged.
\<close>

fun to_float64 :: "float64 \<Rightarrow> float64" where
  "to_float64 (Finite r) = float64_round r"
| "to_float64 x = x"

text \<open>Subtraction of float64 values; \<open>None\<close> is NaN, the difference of equal infinities.\<close>

fun float64_sub :: "float64 \<Rightarrow> float64 \<Rightarrow> float64 option" where
  "float64_sub (Finite a) (Finite b) = Some (float64_round (a - b))"
| "float64_sub PlusInf PlusInf = None"
| "float64_sub MinusInf MinusInf = None"
| "float64_sub PlusInf b = Some PlusInf"
| "float64_sub MinusInf b = Some MinusInf"
| "float64_sub (Finite a) PlusInf = Some MinusInf"
| "float64_sub (Finite a) MinusInf = Some PlusInf"

text \<open>
  The time components of a pandas timedelta: \<^verbatim>\<open>days\<close> is the floor of the duration in
  days, \<^verbatim>\<open>seconds\<close> the seconds of the remainder (from 0 to 86399), then the
  microseconds and nanoseconds of what is left.
\<close>

definition td_days :: "int \<Rightarrow> int" where
  "td_days ns = ns div 86400000000000"

definition td_seconds :: "int \<Rightarrow> int" where
  "td_seconds ns = (ns mod 86400000000000) div 1000000000"

definition td_microseconds :: "int \<Rightarrow> int" where
  "td_microseconds ns = (ns mod 1000000000) div 1000"

definition td_nanoseconds :: "int \<Rightarrow> int" where
  "td_nanoseconds ns = ns mod 1000"

text \<open>
  \<^verbatim>\<open>getattr\<close> on a \<^verbatim>\<open>pd.TimedeltaIndex\<close>, for the names of time units: the index has
  the four components above and no other unit.
\<close>

definition TimedeltaIndex_getattr :: "string \<Rightarrow> (int \<Rightarrow> int) option" where
  "TimedeltaIndex_getattr u =
     (if u = ''days'' then Some td_days
      else if u = ''seconds'' then Some td_seconds
      else if u = ''microseconds'' then Some td_microseconds
      else if u = ''nanoseconds'' then Some td_nanoseconds
      else None)"

text \<open>
  \<^verbatim>\<open>pd_time_unit\<close> (lines 335 to 338): \<^verbatim>\<open>getattr(pd_index, time_unit).values\<close>. The
  index is given by the attribute lookup of its class and by its values. An attribute
  name that is not a string raises TypeError, a name the index does not have raises
  AttributeError.
\<close>

definition pd_time_unit ::
  "string option \<Rightarrow> (string \<Rightarrow> ('x \<Rightarrow> int) option) \<Rightarrow> 'x array \<Rightarrow> error + rat array" where
  "pd_time_unit time_unit index_getattr pd_index =
     (case time_unit of
        None \<Rightarrow> Inl TypeError
      | Some u \<Rightarrow>
          (case index_getattr u of
             None \<Rightarrow> Inl AttributeError
           | Some component \<Rightarrow> Inr (map (map_option (\<lambda>x. of_int (component x))) pd_index)))"

text \<open>
  Floating-point arithmetic of a computed array with a scalar, element by element: \<open>f\<close>
  is the exact operation, its result is rounded to float64.
\<close>

definition elementwise ::
  "(rat \<Rightarrow> rat) \<Rightarrow> error + rat array \<Rightarrow> error + float64 array" where
  "elementwise f r =
     (case r of
        Inl e \<Rightarrow> Inl e
      | Inr xs \<Rightarrow> Inr (map (map_option (\<lambda>x. float64_round (f x))) xs))"

section \<open>The unit families\<close>

text \<open>
  \<^verbatim>\<open>DatetimeUnitBasePrimitive.get_function\<close> (lines 99 to 100). The attribute lookup of
  \<^verbatim>\<open>pd.DatetimeIndex\<close> is the parameter \<open>DatetimeIndex_getattr\<close>.
\<close>

definition DatetimeUnitBasePrimitive_get_function ::
  "(string \<Rightarrow> (int \<Rightarrow> int) option) \<Rightarrow> ('e, 'd) transform_primitive \<Rightarrow> int array
     \<Rightarrow> error + rat array" where
  "DatetimeUnitBasePrimitive_get_function DatetimeIndex_getattr self array =
     pd_time_unit (name (cls self)) DatetimeIndex_getattr array"

text \<open>\<^verbatim>\<open>TimedeltaUnitBasePrimitive.get_function\<close> (lines 109 to 110).\<close>

definition TimedeltaUnitBasePrimitive_get_function ::
  "('e, 'd) transform_primitive \<Rightarrow> int array \<Rightarrow> error + rat array" where
  "TimedeltaUnitBasePrimitive_get_function self array =
     pd_time_unit (name (cls self)) TimedeltaIndex_getattr array"

text \<open>
  The overriding \<^verbatim>\<open>get_function\<close> of \<^verbatim>\<open>Hours\<close>, \<^verbatim>\<open>Minutes\<close>, \<^verbatim>\<open>Weeks\<close>,
  \<^verbatim>\<open>Months\<close> and \<^verbatim>\<open>Years\<close> (lines 128, 147, 158, 169 and 180). None of them reads
  \<^verbatim>\<open>self\<close>. The division is Python 3's true division, in float64; the components of
  a timedelta that pandas can hold are integers that float64 holds exactly. \<open>twelve_over_365\<close> is the float64 constant
  \<^verbatim>\<open>12. / 365\<close>.
\<close>

definition Hours_get_function :: "int array \<Rightarrow> error + float64 array" where
  "Hours_get_function array =
     elementwise (\<lambda>x. x / 3600) (pd_time_unit (Some ''seconds'') TimedeltaIndex_getattr array)"

definition Minutes_get_function :: "int array \<Rightarrow> error + float64 array" where
  "Minutes_get_function array =
     elementwise (\<lambda>x. x / 60) (pd_time_unit (Some ''seconds'') TimedeltaIndex_getattr array)"

definition Weeks_get_function :: "int array \<Rightarrow> error + float64 array" where
  "Weeks_get_function array =
     elementwise (\<lambda>x. x / 7) (pd_time_unit (Some ''days'') TimedeltaIndex_getattr array)"

definition twelve_over_365 :: rat where
  "twelve_over_365 = (case float64_round (12 / 365) of Finite c \<Rightarrow> c | _ \<Rightarrow> 0)"

definition Months_get_function :: "int array \<Rightarrow> error + float64 array" where
  "Months_get_function array =
     elementwise (\<lambda>x. x * twelve_over_365)
       (pd_time_unit (Some ''days'') TimedeltaIndex_getattr array)"

definition Years_get_function :: "int array \<Rightarrow> error + float64 array" where
  "Years_get_function array =
     elementwise (\<lambda>x. x / 365) (pd_time_unit (Some ''days'') TimedeltaIndex_getattr array)"

section \<open>Time since a reference time\<close>

text \<open>
  The public names of Python's standard module \<^verbatim>\<open>datetime\<close>, which line 6 imports as
  \<^verbatim>\<open>datetime\<close>. The class \<^verbatim>\<open>datetime.datetime\<close> has a method \<^verbatim>\<open>now\<close>; the module
  has no attribute of that name.
\<close>

definition datetime_module :: "string list" where
  "datetime_module =
     [''MAXYEAR'', ''MINYEAR'', ''date'', ''datetime'', ''time'', ''timedelta'', ''timezone'',
      ''tzinfo'']"

text \<open>
  The call \<^verbatim>\<open>datetime.now()\<close> of lines 230 and 247, \<open>clock\<close> being the wall-clock time
  when the call is made: the attribute is looked up on the module first.
\<close>

definition datetime_now :: "int \<Rightarrow> error + int" where
  "datetime_now clock = (if ''now'' \<in> set datetime_module then Inr clock else Inl AttributeError)"

text \<open>\<^verbatim>\<open>pd_time_since\<close> of \<^verbatim>\<open>TimeSince.get_function\<close> (lines 227 to 232).\<close>

definition pd_time_since :: "int \<Rightarrow> int array \<Rightarrow> int option \<Rightarrow> error + int array" where
  "pd_time_since clock array time =
     (case (case time of None \<Rightarrow> datetime_now clock | Some t \<Rightarrow> Inr t) of
        Inl e \<Rightarrow> Inl e
      | Inr t \<Rightarrow> Inr (map (map_option (\<lambda>x. t - x)) array))"

text \<open>\<^verbatim>\<open>pd_days_since\<close> of \<^verbatim>\<open>DaysSince.get_function\<close> (lines 244 to 249).\<close>

definition pd_days_since :: "int \<Rightarrow> int array \<Rightarrow> int option \<Rightarrow> error + rat array" where
  "pd_days_since clock array time =
     (case (case time of None \<Rightarrow> datetime_now clock | Some t \<Rightarrow> Inr t) of
        Inl e \<Rightarrow> Inl e
      | Inr t \<Rightarrow>
          pd_time_unit (Some ''days'') TimedeltaIndex_getattr
            (map (map_option (\<lambda>x. t - x)) array))"

section \<open>Membership\<close>

text \<open>
  \<^verbatim>\<open>pd_is_in\<close> of \<^verbatim>\<open>IsIn.get_function\<close> (lines 264 to 269). \<open>bound\<close> is
  \<^verbatim>\<open>self.list_of_outputs\<close>, the default of the second parameter; \<open>passed\<close> is
  \<open>None\<close> when the caller gives the array alone and \<open>Some l\<close> when it passes \<open>l\<close> as
  second argument.
\<close>

definition pd_is_in :: "'a list option \<Rightarrow> 'a list \<Rightarrow> 'a list option option \<Rightarrow> bool list" where
  "pd_is_in bound array passed =
     (let list_of_outputs = (case passed of None \<Rightarrow> bound | Some l \<Rightarrow> l);
          list_of_outputs = (case list_of_outputs of None \<Rightarrow> [] | Some l \<Rightarrow> l)
      in map (\<lambda>v. v \<in> set list_of_outputs) array)"

definition IsIn_get_function ::
  "('e, 'd) transform_primitive \<Rightarrow> int list \<Rightarrow> int list option option \<Rightarrow> bool list" where
  "IsIn_get_function self = pd_is_in (list_of_outputs self)"

section \<open>Grouped differences\<close>



text \<open>
  The difference of two elements of a numeric column, in float64: a missing operand
  gives a missing result.
\<close>

fun float64_nan_sub :: "float64 option \<Rightarrow> float64 option \<Rightarrow> float64 option" where
  "float64_nan_sub (Some a) (Some b) = float64_sub (to_float64 a) (to_float64 b)"
| "float64_nan_sub _ _ = None"



text \<open>
  The difference of two elements of a datetime64[ns] column, a timedelta64[ns]: NaT when
  an operand is NaT, an overflow error when the difference is not a signed 64-bit
  number, and NaT when it is the least one.
\<close>

definition datetime64_sub :: "int option \<Rightarrow> int option \<Rightarrow> error + int option" where
  "datetime64_sub a b =
     (case (a, b) of
        (Some x, Some y) \<Rightarrow>
          (let d = x - y
           in if d < - (2 ^ 63) \<or> 2 ^ 63 \<le> d then Inl OverflowError
              else if d = - (2 ^ 63) then Inr None
              else Inr (Some d))
      | _ \<Rightarrow> Inr None)"




text \<open>Subtraction of exact values where a missing operand gives a missing result.\<close>

fun nan_minus :: "('a::minus) option \<Rightarrow> 'a option \<Rightarrow> 'a option" where
  "nan_minus (Some a) (Some b) = Some (a - b)"
| "nan_minus _ _ = None"

section \<open>Example features\<close>

text \<open>
  Features of two entities, numbered 1 and 2, on which the theorems below are evaluated.
\<close>

definition when_feature :: "(nat, int) feature" where
  "when_feature = \<lparr>entity = 1, variable_type = DatetimeTimeIndex, default_value = 0,
                    expanding = False, feature_name = ''when''\<rparr>"

definition updated_feature :: "(nat, int) feature" where
  "updated_feature = \<lparr>entity = 1, variable_type = DatetimeTimeIndex, default_value = 0,
                       expanding = False, feature_name = ''updated''\<rparr>"

definition customer_feature :: "(nat, int) feature" where
  "customer_feature = \<lparr>entity = 1, variable_type = Id_var, default_value = 0,
                        expanding = False, feature_name = ''customer_id''\<rparr>"

definition amount_feature :: "(nat, int) feature" where
  "amount_feature = \<lparr>entity = 1, variable_type = Numeric, default_value = 7,
                      expanding = False, feature_name = ''amount''\<rparr>"

definition duration_feature :: "(nat, int) feature" where
  "duration_feature = \<lparr>entity = 1, variable_type = Timedelta, default_value = 0,
                        expanding = False, feature_name = ''duration''\<rparr>"

definition foreign_amount_feature :: "(nat, int) feature" where
  "foreign_amount_feature = \<lparr>entity = 2, variable_type = Numeric, default_value = 7,
                              expanding = False, feature_name = ''amount''\<rparr>"

definition foreign_customer_feature :: "(nat, int) feature" where
  "foreign_customer_feature = \<lparr>entity = 2, variable_type = Id_var, default_value = 0,
                                expanding = False, feature_name = ''customer_id''\<rparr>"

section \<open>Auxiliary facts\<close>

lemmas example_features =
  when_feature_def updated_feature_def customer_feature_def amount_feature_def
  duration_feature_def foreign_amount_feature_def foreign_customer_feature_def

lemmas init_defs =
  TransformPrimitive_init_def PrimitiveBase_init_def issubclass_def new_def

lemma TransformPrimitive_init_Inr:
  assumes "TransformPrimitive_init si self args = Inr p"
  shows "\<exists>bfs. check_features args = Inr bfs \<and> length (remdups (map entity bfs)) = 1
           \<and> base_features p = bfs \<and> cls p = cls self
           \<and> group_feature p = group_feature self
           \<and> list_of_outputs p = list_of_outputs self"
  using assms
  by (auto simp: TransformPrimitive_init_def Let_def split: sum.splits if_splits option.splits)

lemma TimeSincePrevious_init_Inr:
  assumes "TimeSincePrevious_init si self t g = Inr p"
  shows "\<exists>gf. check_feature g = Inr gf \<and> issubclass (variable_type gf) Discrete
           \<and> group_feature p = Some gf \<and> cls p = cls self"
  using assms
  by (auto simp: TimeSincePrevious_init_def split: sum.splits if_splits
           dest!: TransformPrimitive_init_Inr)

lemma get_name_default:
  "\<not> overrides_get_name (cls p) \<Longrightarrow> get_name p = TransformPrimitive_get_name p"
  by (simp add: get_name_def overrides_get_name_def)

text \<open>A separator character that occurs in neither part splits a string in one way only.\<close>

lemma append_sep_cancel:
  assumes "c \<notin> set x" and "c \<notin> set y" and "x @ a = y @ b"
    and "a = [] \<or> hd a = c" and "b = [] \<or> hd b = c"
  shows "x = y \<and> a = b"
proof -
  have tx: "takeWhile (\<lambda>d. d \<noteq> c) (x @ a) = x"
    using assms(1,4) by (cases a) (auto simp: takeWhile_append2 takeWhile_tail)
  have ty: "takeWhile (\<lambda>d. d \<noteq> c) (y @ b) = y"
    using assms(2,5) by (cases b) (auto simp: takeWhile_append2 takeWhile_tail)
  from tx ty assms(3) have "x = y" by simp
  with assms(3) show ?thesis by simp
qed

lemma join_comma_inj:
  assumes "xs \<noteq> []" and "ys \<noteq> []"
    and "\<forall>x\<in>set xs. CHR '','' \<notin> set x" and "\<forall>y\<in>set ys. CHR '','' \<notin> set y"
    and "join '', '' xs = join '', '' ys"
  shows "xs = ys"
  using assms
proof (induction xs arbitrary: ys)
  case Nil
  then show ?case by simp
next
  case (Cons x xs)
  then obtain y ys' where ys: "ys = y # ys'" by (cases ys) auto
  define a where "a = (if xs = [] then [] else '', '' @ join '', '' xs)"
  define b where "b = (if ys' = [] then [] else '', '' @ join '', '' ys')"
  have jx: "join '', '' (x # xs) = x @ a" by (cases xs) (auto simp: a_def)
  have jy: "join '', '' (y # ys') = y @ b" by (cases ys') (auto simp: b_def)
  have "x = y \<and> a = b"
  proof (rule append_sep_cancel [where c = "CHR '',''"])
    show "CHR '','' \<notin> set x" using Cons.prems(3) by simp
    show "CHR '','' \<notin> set y" using Cons.prems(4) ys by simp
    show "x @ a = y @ b" using Cons.prems(5) ys jx jy by simp
    show "a = [] \<or> hd a = CHR '',''" by (simp add: a_def)
    show "b = [] \<or> hd b = CHR '',''" by (simp add: b_def)
  qed
  then have xy: "x = y" and ab: "a = b" by simp_all
  show ?case
  proof (cases "xs = []")
    case True
    with ab have "ys' = []" by (auto simp: a_def b_def split: if_splits)
    with True xy ys show ?thesis by simp
  next
    case False
    with ab have ne: "ys' \<noteq> []" by (auto simp: a_def b_def split: if_splits)
    with ab False have "join '', '' xs = join '', '' ys'" by (simp add: a_def b_def)
    with Cons.IH [of ys'] False ne Cons.prems(3,4) ys have "xs = ys'" by simp
    with xy ys show ?thesis by simp
  qed
qed

text \<open>Integers of magnitude up to 2 ^ 53 are float64 values.\<close>

lemma round_half_even_of_int [simp]: "round_half_even (of_int k) = k"
  by (simp add: round_half_even_def)

lemma float64_round_of_int:
  assumes "\<bar>n\<bar> \<le> 2 ^ 53"
  shows "float64_round (of_int n) = Finite (of_int n)"
proof (cases "n = 0")
  case True
  then show ?thesis by (simp add: float64_round_def)
next
  case False
  define m where "m = \<bar>n\<bar>"
  have m: "0 < m" "m \<le> 2 ^ 53" using False assms by (auto simp: m_def)
  define L where "L = bitlen m - 1"
  have b: "2 ^ nat L \<le> m" "m < 2 ^ nat (L + 1)"
    using bitlen_bounds [OF m(1)] by (simp_all add: L_def)
  have L0: "0 \<le> L" using m(1) bitlen_nonneg [of m] bitlen_eq_zero_iff [of m]
    by (simp add: L_def)
  have p: "(2::int) ^ nat L \<le> 2 ^ 53" using b(1) m(2) by linarith
  have "nat L \<le> 53"
  proof (rule power_le_imp_le_exp [of "2::int"])
    show "1 < (2::int)" by simp
    show "(2::int) ^ nat L \<le> 2 ^ 53" by (fact p)
  qed
  then have L53: "L \<le> 53" by simp
  have il: "ilog2 \<bar>of_int n\<bar> = L"
  proof -
    have "\<bar>(of_int n :: rat)\<bar> = of_int m" by (simp add: m_def)
    moreover have "(1::rat) \<le> of_int m" using m(1) by simp
    ultimately show ?thesis by (simp add: ilog2_def L_def)
  qed
  have ab: "\<bar>(of_int n :: rat)\<bar> = of_int m" by (simp add: m_def)
  have e: "max (L - 52) (- 1074) = L - 52" using L0 by simp
  have v: "of_int (round_half_even (of_int m / 2 powi (L - 52))) * 2 powi (L - 52)
             = (of_int m :: rat)"
  proof (cases "L \<le> 52")
    case True
    then have "(2::rat) powi (L - 52) = 1 / 2 ^ nat (52 - L)"
      by (simp add: power_int_def field_simps)
    moreover have "(of_int m :: rat) / (1 / 2 ^ nat (52 - L)) = of_int (m * 2 ^ nat (52 - L))"
      by simp
    ultimately have "round_half_even (of_int m / 2 powi (L - 52)) = m * 2 ^ nat (52 - L)"
      by (simp only: round_half_even_of_int)
    with \<open>(2::rat) powi (L - 52) = 1 / 2 ^ nat (52 - L)\<close> show ?thesis by simp
  next
    case False
    with L53 have L: "L = 53" by simp
    with b(1) m(2) have "m = 2 ^ 53" by simp
    with L show ?thesis
      by (simp add: round_half_even_def)
  qed
  have lt: "(of_int m :: rat) < 2 ^ 1024"
  proof -
    have "(of_int m :: rat) \<le> 2 ^ 53" using m(2) by (metis of_int_le_iff of_int_numeral of_int_power)
    also have "\<dots> < 2 ^ 1024" by simp
    finally show ?thesis .
  qed
  have sg: "sgn (of_int n :: rat) * of_int m = of_int n"
    by (simp add: m_def sgn_if)
  show ?thesis
    using False il ab e v lt sg
    by (simp add: float64_round_def Let_def)
qed










lemma float64_nan_sub_None [simp]: "float64_nan_sub v None = None"
  by (cases v) simp_all

lemma nan_minus_None [simp]: "nan_minus v None = None"
  by (cases v) simp_all

lemma datetime64_sub_None [simp]: "datetime64_sub a None = Inr None"
  by (cases a) (simp_all add: datetime64_sub_def)




text \<open>The seconds component of a timedelta is less than a day.\<close>

lemma float64_round_0: "float64_round 0 = Finite 0"
  by (simp add: float64_round_def)

lemma float64_round_1: "float64_round 1 = Finite 1"
  using float64_round_of_int [of 1] by simp

lemma td_seconds_range: "0 \<le> td_seconds ns \<and> td_seconds ns < 86400"
proof -
  have lo: "0 \<le> ns mod 86400000000000" and hi: "ns mod 86400000000000 \<le> 86399999999999"
    using pos_mod_bound [of 86400000000000 ns] by simp_all
  have "(ns mod 86400000000000) div 1000000000 \<le> 86399999999999 div 1000000000"
    using hi by (rule zdiv_mono1) simp
  moreover have "0 \<le> (ns mod 86400000000000) div 1000000000"
    using lo by (simp add: pos_imp_zdiv_nonneg_iff)
  ultimately show ?thesis by (simp add: td_seconds_def)
qed

section \<open>Grouped primitives\<close>




section \<open>Missing reference time\<close>

text \<open>
  Claim C4. Called with no reference time, the functions of \<^verbatim>\<open>TimeSince\<close> and
  \<^verbatim>\<open>DaysSince\<close> do not reach the wall clock: \<^verbatim>\<open>datetime.now()\<close> is looked up on
  the module \<^verbatim>\<open>datetime\<close>, which has no such attribute, and the call raises
  AttributeError whatever the clock and the array are.
\<close>

theorem time_since_without_reference_time:
  "pd_time_since clock array None = Inl AttributeError
   \<and> pd_days_since clock array None = Inl AttributeError"
  by (simp add: pd_time_since_def pd_days_since_def datetime_now_def datetime_module_def)

section \<open>Timedelta units\<close>

text \<open>
  Claim C5. \<^verbatim>\<open>Hours\<close> and \<^verbatim>\<open>Minutes\<close> divide the \<^verbatim>\<open>seconds\<close> component of the
  timedelta, which \<^verbatim>\<open>Seconds\<close> returns and which is always less than 86400, not the
  seconds of the whole duration: a timedelta of 25 hours has 1 hour and 3600 seconds, a
  timedelta of 86400 seconds has 0 hours and 0 minutes. The three examples of the claim
  are durations below one day or of whole days, where the component and the duration
  agree: 3600 seconds are 1 hour, 86400 seconds 1 day and 604800 seconds 1 week.
\<close>

theorem hours_read_the_seconds_component:
  "Hours_get_function [Some 90000000000000] = Inr [Some (Finite 1)]
   \<and> Hours_get_function [Some 86400000000000] = Inr [Some (Finite 0)]
   \<and> Minutes_get_function [Some 86400000000000] = Inr [Some (Finite 0)]
   \<and> TimedeltaUnitBasePrimitive_get_function
        (new Seconds :: (unit, unit) transform_primitive) [Some 90000000000000]
      = Inr [Some 3600]
   \<and> (\<exists>s. TimedeltaUnitBasePrimitive_get_function
              (new Seconds :: (unit, unit) transform_primitive) [Some ns]
            = Inr [Some (of_int s)] \<and> 0 \<le> s \<and> s < 86400)
   \<and> Hours_get_function [Some 3600000000000] = Inr [Some (Finite 1)]
   \<and> TimedeltaUnitBasePrimitive_get_function
        (new Days :: (unit, unit) transform_primitive) [Some 86400000000000]
      = Inr [Some 1]
   \<and> Weeks_get_function [Some 604800000000000] = Inr [Some (Finite 1)]"
  using td_seconds_range [of ns]
  by (simp add: Hours_get_function_def Minutes_get_function_def Weeks_get_function_def
        TimedeltaUnitBasePrimitive_get_function_def new_def pd_time_unit_def
        TimedeltaIndex_getattr_def elementwise_def td_days_def td_seconds_def
        float64_round_0 float64_round_1)

section \<open>Membership in a bound list\<close>

text \<open>
  Claim C8. An \<^verbatim>\<open>IsIn\<close> instance keeps the list given at construction. Its function,
  called with the array alone, returns for each value whether it is in that list: the
  list [1, 3] on [1, 2, 3, 4] gives True, False, True, False, and with no list every
  result is False.
\<close>

theorem IsIn_membership:
  assumes "IsIn_init si self base_feature los = Inr p"
  shows "IsIn_get_function p array None
           = map (\<lambda>v. v \<in> set (case los of None \<Rightarrow> [] | Some l \<Rightarrow> l)) array
       \<and> (los = Some [1, 3] \<longrightarrow>
            IsIn_get_function p [1, 2, 3, 4] None = [True, False, True, False])
       \<and> (los = None \<longrightarrow> IsIn_get_function p array None = replicate (length array) False)"
proof -
  have l: "list_of_outputs p = los"
    using assms by (auto simp: IsIn_init_def dest!: TransformPrimitive_init_Inr)
  have n: "map (\<lambda>v. False) array = replicate (length array) False"
    by (induction array) auto
  from l n show ?thesis
    by (auto simp: IsIn_get_function_def pd_is_in_def)
qed

theorem IsIn_membership_witness:
  "IsIn_init PrimitiveBase_init (new IsIn) (Feature amount_feature) (Some [1, 3])
     = Inr \<lparr>cls = IsIn, base_features = [amount_feature], self_expanding = False,
            self_entity = Some 1, group_feature = None, list_of_outputs = Some [1, 3]\<rparr>
   \<and> IsIn_get_function \<lparr>cls = IsIn, base_features = [amount_feature], self_expanding = False,
            self_entity = Some 1, group_feature = None, list_of_outputs = Some [1, 3]\<rparr>
        [1, 2, 3, 4] None = [True, False, True, False]
   \<and> IsIn_init PrimitiveBase_init (new IsIn) (Feature amount_feature) None
     = Inr \<lparr>cls = IsIn, base_features = [amount_feature], self_expanding = False,
            self_entity = Some 1, group_feature = None, list_of_outputs = None\<rparr>
   \<and> IsIn_get_function \<lparr>cls = IsIn, base_features = [amount_feature], self_expanding = False,
            self_entity = Some 1, group_feature = None, list_of_outputs = None\<rparr>
        [1, 2, 3, 4] None = [False, False, False, False]"
proof -
  have a: "IsIn_init PrimitiveBase_init (new IsIn) (Feature amount_feature) (Some [1, 3])
     = Inr \<lparr>cls = IsIn, base_features = [amount_feature], self_expanding = False,
            self_entity = Some 1, group_feature = None, list_of_outputs = Some [1, 3]\<rparr>"
    by (simp add: IsIn_init_def init_defs amount_feature_def)
  have b: "IsIn_init PrimitiveBase_init (new IsIn) (Feature amount_feature) None
     = Inr \<lparr>cls = IsIn, base_features = [amount_feature], self_expanding = False,
            self_entity = Some 1, group_feature = None, list_of_outputs = None\<rparr>"
    by (simp add: IsIn_init_def init_defs amount_feature_def)
  have r: "replicate (length [1, 2, 3, 4::int]) False = [False, False, False, False]"
    by (simp add: numeral_eq_Suc)
  show ?thesis
    using IsIn_membership [OF a, of "[1, 2, 3, 4]"] IsIn_membership [OF b, of "[1, 2, 3, 4]"]
      a b r
    by simp
qed

section \<open>The single-entity check\<close>

text \<open>
  Claim C1 (amended). When \<^verbatim>\<open>TransformPrimitive.__init__\<close> runs on arguments whose
  coerced base features do not all belong to exactly one entity, it fails with the
  assertion message "More than one entity for base features"; when they share one entity
  the check passes and construction continues in the base class. \<^verbatim>\<open>Diff\<close> reaches
  this check whenever its arguments are coercible, \<^verbatim>\<open>TimeSincePrevious\<close> when in
  addition its group feature has a Discrete kind.
\<close>

theorem entity_mismatch_fails:
  fixes si :: "('e, 'd) base_init"
  shows "(check_features args = Inr bfs \<longrightarrow>
      TransformPrimitive_init si self args =
        (if length (remdups (map entity bfs)) \<noteq> 1
         then Inl (AssertionError ''More than one entity for base features'')
         else (let self2 = self\<lparr>base_features := bfs,
                               self_expanding := (list_ex expanding bfs \<or> self_expanding self)\<rparr>
               in case si self2 (entity (hd bfs)) bfs of
                    Some e \<Rightarrow> Inl e
                  | None \<Rightarrow> Inr (self2\<lparr>self_entity := Some (entity (hd bfs))\<rparr>))))
   \<and> (check_feature a = Inr af \<and> check_feature g = Inr gf \<and> entity af \<noteq> entity gf \<longrightarrow>
        Diff_init si self a g = Inl (AssertionError ''More than one entity for base features''))
   \<and> (check_feature a = Inr af \<and> check_feature g = Inr gf \<and> entity af \<noteq> entity gf
        \<and> issubclass (variable_type gf) Discrete \<longrightarrow>
        TimeSincePrevious_init si self a g
          = Inl (AssertionError ''More than one entity for base features''))"
  by (auto simp: TransformPrimitive_init_def Diff_init_def TimeSincePrevious_init_def Let_def
      split: option.splits)

theorem entity_mismatch_fails_witness:
  "check_features [Feature amount_feature, Feature foreign_amount_feature]
     = Inr [amount_feature, foreign_amount_feature]
   \<and> TransformPrimitive_init PrimitiveBase_init (new Absolute)
        [Feature amount_feature, Feature foreign_amount_feature]
     = Inl (AssertionError ''More than one entity for base features'')
   \<and> check_features [Feature amount_feature] = Inr [amount_feature]
   \<and> TransformPrimitive_init PrimitiveBase_init (new Absolute) [Feature amount_feature]
     = Inr \<lparr>cls = Absolute, base_features = [amount_feature], self_expanding = False,
            self_entity = Some 1, group_feature = None, list_of_outputs = None\<rparr>
   \<and> check_feature (Feature amount_feature) = Inr amount_feature
   \<and> check_feature (Feature when_feature) = Inr when_feature
   \<and> check_feature (Feature foreign_customer_feature) = Inr foreign_customer_feature
   \<and> entity amount_feature \<noteq> entity foreign_customer_feature
   \<and> entity when_feature \<noteq> entity foreign_customer_feature
   \<and> issubclass (variable_type foreign_customer_feature) Discrete
   \<and> Diff_init PrimitiveBase_init (new Diff) (Feature amount_feature)
        (Feature foreign_customer_feature)
     = Inl (AssertionError ''More than one entity for base features'')
   \<and> TimeSincePrevious_init PrimitiveBase_init (new TimeSincePrevious) (Feature when_feature)
        (Feature foreign_customer_feature)
     = Inl (AssertionError ''More than one entity for base features'')"
proof -
  have h1: "check_features [Feature amount_feature, Feature foreign_amount_feature]
     = Inr [amount_feature, foreign_amount_feature]" by simp
  have h2: "check_features [Feature amount_feature] = Inr [amount_feature]" by simp
  have h3: "check_feature (Feature amount_feature) = Inr amount_feature
     \<and> check_feature (Feature foreign_customer_feature) = Inr foreign_customer_feature
     \<and> entity amount_feature \<noteq> entity foreign_customer_feature"
    by (simp add: example_features)
  have h4: "check_feature (Feature when_feature) = Inr when_feature
     \<and> check_feature (Feature foreign_customer_feature) = Inr foreign_customer_feature
     \<and> entity when_feature \<noteq> entity foreign_customer_feature
     \<and> issubclass (variable_type foreign_customer_feature) Discrete"
    by (simp add: example_features issubclass_def)
  have r1: "TransformPrimitive_init PrimitiveBase_init (new Absolute)
        [Feature amount_feature, Feature foreign_amount_feature]
     = Inl (AssertionError ''More than one entity for base features'')"
    using h1 entity_mismatch_fails
      [where args = "[Feature amount_feature, Feature foreign_amount_feature]"
         and bfs = "[amount_feature, foreign_amount_feature]"
         and si = PrimitiveBase_init and self = "new Absolute"]
    by (simp add: example_features)
  have r2: "TransformPrimitive_init PrimitiveBase_init (new Absolute) [Feature amount_feature]
     = Inr \<lparr>cls = Absolute, base_features = [amount_feature], self_expanding = False,
            self_entity = Some 1, group_feature = None, list_of_outputs = None\<rparr>"
    using h2 entity_mismatch_fails
      [where args = "[Feature amount_feature]" and bfs = "[amount_feature]"
         and si = PrimitiveBase_init and self = "new Absolute"]
    by (simp add: example_features PrimitiveBase_init_def issubclass_def new_def)
  have r3: "Diff_init PrimitiveBase_init (new Diff) (Feature amount_feature)
        (Feature foreign_customer_feature)
     = Inl (AssertionError ''More than one entity for base features'')"
    using h3 entity_mismatch_fails
      [where a = "Feature amount_feature" and af = amount_feature
         and g = "Feature foreign_customer_feature" and gf = foreign_customer_feature
         and si = PrimitiveBase_init and self = "new Diff"]
    by blast
  have r4: "TimeSincePrevious_init PrimitiveBase_init (new TimeSincePrevious)
        (Feature when_feature) (Feature foreign_customer_feature)
     = Inl (AssertionError ''More than one entity for base features'')"
    using h4 entity_mismatch_fails
      [where a = "Feature when_feature" and af = when_feature
         and g = "Feature foreign_customer_feature" and gf = foreign_customer_feature
         and si = PrimitiveBase_init and self = "new TimeSincePrevious"]
    by blast
  from h1 h2 h3 h4 r1 r2 r3 r4 show ?thesis by blast
qed

text \<open>
  Claim C1 as stated fails for \<^verbatim>\<open>TimeSincePrevious\<close>: with a time index of entity 1
  and a Numeric group feature of entity 2 the base features belong to two entities, and
  construction fails with the message of the group-feature assertion, which runs first.
\<close>

theorem entity_mismatch_message_counterexample:
  "check_features [Feature when_feature, Feature foreign_amount_feature]
     = Inr [when_feature, foreign_amount_feature]
   \<and> length (remdups (map entity [when_feature, foreign_amount_feature])) \<noteq> 1
   \<and> TimeSincePrevious_init PrimitiveBase_init (new TimeSincePrevious)
        (Feature when_feature) (Feature foreign_amount_feature)
      = Inl (AssertionError ''group_feature must have a discrete variable_type'')
   \<and> TimeSincePrevious_init PrimitiveBase_init (new TimeSincePrevious)
        (Feature when_feature) (Feature foreign_amount_feature)
      \<noteq> Inl (AssertionError ''More than one entity for base features'')"
  by (simp add: example_features TimeSincePrevious_init_def issubclass_def)

section \<open>Display name of a transform primitive\<close>

text \<open>
  Claim C2 (amended). For an instance of a class that sets \<^verbatim>\<open>name\<close> and does not
  define \<^verbatim>\<open>_get_name\<close> itself, the display name is the uppercased name followed, in
  parentheses, by the display names of the base features joined by a comma and a space.
  It is a function of the class and of those display names alone: two instances of one
  class whose base features have the same display names have the same name, and when no
  display name of a base feature contains a comma, two instances of one class whose
  base features have different display names have different names.
\<close>

theorem get_name_rule:
  assumes "TransformPrimitive_init si self args = Inr p"
    and "TransformPrimitive_init si' self' args' = Inr q"
    and "cls self' = cls self"
    and "\<not> overrides_get_name (cls self)"
    and "name (cls self) = Some n"
  shows "get_name p =
           Inr (upper n @ ''('' @ join '', '' (map feature_name (base_features p)) @ '')'')
       \<and> (map feature_name (base_features q) = map feature_name (base_features p) \<longrightarrow>
            get_name q = get_name p)
       \<and> ((\<forall>f\<in>set (base_features p @ base_features q). CHR '','' \<notin> set (feature_name f))
            \<and> map feature_name (base_features q) \<noteq> map feature_name (base_features p) \<longrightarrow>
            get_name q \<noteq> get_name p)"
proof -
  obtain bp where bp: "length (remdups (map entity bp)) = 1" "base_features p = bp"
    "cls p = cls self"
    using assms(1) TransformPrimitive_init_Inr by blast
  obtain bq where bq: "length (remdups (map entity bq)) = 1" "base_features q = bq"
    "cls q = cls self'"
    using assms(2) TransformPrimitive_init_Inr by blast
  have np: "get_name p =
      Inr (upper n @ ''('' @ join '', '' (map feature_name (base_features p)) @ '')'')"
    using bp(3) assms(4,5) by (simp add: get_name_default TransformPrimitive_get_name_def)
  have nq: "get_name q =
      Inr (upper n @ ''('' @ join '', '' (map feature_name (base_features q)) @ '')'')"
    using bq(3) assms(3,4,5) by (simp add: get_name_default TransformPrimitive_get_name_def)
  have nep: "map feature_name bp \<noteq> []" using bp(1) by (cases bp) auto
  have neq: "map feature_name bq \<noteq> []" using bq(1) by (cases bq) auto
  have inj: "(\<forall>f\<in>set (base_features p @ base_features q). CHR '','' \<notin> set (feature_name f))
            \<and> map feature_name (base_features q) \<noteq> map feature_name (base_features p) \<longrightarrow>
            get_name q \<noteq> get_name p"
  proof (intro impI notI)
    assume h: "(\<forall>f\<in>set (base_features p @ base_features q). CHR '','' \<notin> set (feature_name f))
            \<and> map feature_name (base_features q) \<noteq> map feature_name (base_features p)"
      and e: "get_name q = get_name p"
    from e np nq have "join '', '' (map feature_name bq) = join '', '' (map feature_name bp)"
      using bp(2) bq(2) by simp
    moreover have "\<forall>x\<in>set (map feature_name bq). CHR '','' \<notin> set x"
      using h bq(2) by auto
    moreover have "\<forall>x\<in>set (map feature_name bp). CHR '','' \<notin> set x"
      using h bp(2) by auto
    ultimately have "map feature_name bq = map feature_name bp"
      using join_comma_inj [OF neq nep] by blast
    with h bp(2) bq(2) show False by simp
  qed
  from np nq inj show ?thesis by simp
qed

text \<open>
  \<^verbatim>\<open>IsNull\<close> over the feature named amount is IS_NULL(amount); over the feature named
  when it has another name; over the feature named amount of entity 2 it has the same.
\<close>

theorem get_name_rule_witness:
  "TransformPrimitive_init PrimitiveBase_init (new IsNull) [Feature amount_feature]
     = Inr \<lparr>cls = IsNull, base_features = [amount_feature], self_expanding = False,
            self_entity = Some 1, group_feature = None, list_of_outputs = None\<rparr>
   \<and> TransformPrimitive_init PrimitiveBase_init (new IsNull) [Feature when_feature]
     = Inr \<lparr>cls = IsNull, base_features = [when_feature], self_expanding = False,
            self_entity = Some 1, group_feature = None, list_of_outputs = None\<rparr>
   \<and> TransformPrimitive_init PrimitiveBase_init (new IsNull) [Feature foreign_amount_feature]
     = Inr \<lparr>cls = IsNull, base_features = [foreign_amount_feature], self_expanding = False,
            self_entity = Some 2, group_feature = None, list_of_outputs = None\<rparr>
   \<and> \<not> overrides_get_name (cls (new IsNull :: (nat, int) transform_primitive))
   \<and> name (cls (new IsNull :: (nat, int) transform_primitive)) = Some ''is_null''
   \<and> get_name \<lparr>cls = IsNull, base_features = [amount_feature], self_expanding = False,
            self_entity = Some 1, group_feature = None, list_of_outputs = None\<rparr>
       = Inr ''IS_NULL(amount)''
   \<and> get_name \<lparr>cls = IsNull, base_features = [when_feature], self_expanding = False,
            self_entity = Some 1, group_feature = None, list_of_outputs = None\<rparr>
       \<noteq> get_name \<lparr>cls = IsNull, base_features = [amount_feature], self_expanding = False,
            self_entity = Some 1, group_feature = None, list_of_outputs = None\<rparr>
   \<and> get_name \<lparr>cls = IsNull, base_features = [foreign_amount_feature],
            self_expanding = False, self_entity = Some 2, group_feature = None,
            list_of_outputs = None\<rparr>
       = get_name \<lparr>cls = IsNull, base_features = [amount_feature], self_expanding = False,
            self_entity = Some 1, group_feature = None, list_of_outputs = None\<rparr>"
proof -
  let ?pa = "\<lparr>cls = IsNull, base_features = [amount_feature], self_expanding = False,
            self_entity = Some (1::nat), group_feature = None, list_of_outputs = None\<rparr>"
  let ?pw = "\<lparr>cls = IsNull, base_features = [when_feature], self_expanding = False,
            self_entity = Some (1::nat), group_feature = None, list_of_outputs = None\<rparr>"
  let ?pf = "\<lparr>cls = IsNull, base_features = [foreign_amount_feature],
            self_expanding = False, self_entity = Some (2::nat), group_feature = None,
            list_of_outputs = None\<rparr>"
  have a: "TransformPrimitive_init PrimitiveBase_init (new IsNull) [Feature amount_feature]
     = Inr ?pa"
    by (simp add: init_defs example_features)
  have w: "TransformPrimitive_init PrimitiveBase_init (new IsNull) [Feature when_feature]
     = Inr ?pw"
    by (simp add: init_defs example_features)
  have f: "TransformPrimitive_init PrimitiveBase_init (new IsNull)
       [Feature foreign_amount_feature] = Inr ?pf"
    by (simp add: init_defs example_features)
  have o: "\<not> overrides_get_name (cls (new IsNull :: (nat, int) transform_primitive))"
    by (simp add: overrides_get_name_def new_def)
  have n: "name (cls (new IsNull :: (nat, int) transform_primitive)) = Some ''is_null''"
    by (simp add: new_def)
  have u: "upper ''is_null'' = ''IS_NULL''"
    by (simp add: upper_def upper_char_def)
  note rw = get_name_rule [OF a w refl o n]
  note rf = get_name_rule [OF a f refl o n]
  have "get_name ?pa
      = Inr (upper ''is_null'' @ ''('' @ join '', '' (map feature_name (base_features ?pa))
           @ '')'')"
    using rw by blast
  then have g1: "get_name ?pa = Inr ''IS_NULL(amount)''"
    using u by (simp add: amount_feature_def)
  have "(\<forall>f\<in>set (base_features ?pa @ base_features ?pw). CHR '','' \<notin> set (feature_name f))
      \<and> map feature_name (base_features ?pw) \<noteq> map feature_name (base_features ?pa)"
    by (simp add: example_features)
  with rw have g2: "get_name ?pw \<noteq> get_name ?pa" by blast
  have "map feature_name (base_features ?pf) = map feature_name (base_features ?pa)"
    by (simp add: example_features)
  with rf have g3: "get_name ?pf = get_name ?pa" by blast
  from a w f o n g1 g2 g3 show ?thesis by blast
qed

text \<open>
  Claim C2 as stated fails: two \<^verbatim>\<open>IsNull\<close> instances over different base features,
  the columns named amount of entity 1 and of entity 2, have the same display name.
\<close>

theorem get_name_collision_counterexample:
  "TransformPrimitive_init PrimitiveBase_init (new IsNull) [Feature amount_feature]
     = Inr \<lparr>cls = IsNull, base_features = [amount_feature], self_expanding = False,
            self_entity = Some 1, group_feature = None, list_of_outputs = None\<rparr>
   \<and> TransformPrimitive_init PrimitiveBase_init (new IsNull) [Feature foreign_amount_feature]
     = Inr \<lparr>cls = IsNull, base_features = [foreign_amount_feature], self_expanding = False,
            self_entity = Some 2, group_feature = None, list_of_outputs = None\<rparr>
   \<and> amount_feature \<noteq> foreign_amount_feature
   \<and> get_name \<lparr>cls = IsNull, base_features = [amount_feature], self_expanding = False,
            self_entity = Some 1, group_feature = None, list_of_outputs = None\<rparr>
     = get_name \<lparr>cls = IsNull, base_features = [foreign_amount_feature],
            self_expanding = False, self_entity = Some 2, group_feature = None,
            list_of_outputs = None\<rparr>"
  by (simp add: init_defs get_name_def TransformPrimitive_get_name_def example_features)

section \<open>Default value of a constructed primitive\<close>

text \<open>
  Claim C6. A constructed transform primitive has at least one base feature, and its
  \<^verbatim>\<open>default_value\<close> is the default value of the first one. The value is read from
  \<^verbatim>\<open>base_features\<close> alone, so any object with the same base features has the same
  default value, and assigning to it fails.
\<close>

theorem default_value_of_first_base_feature:
  assumes "TransformPrimitive_init si self args = Inr p"
  shows "\<exists>f fs. base_features p = f # fs
           \<and> TransformPrimitive_default_value p = Inr (default_value f)
           \<and> (\<forall>q. base_features q = base_features p \<longrightarrow>
                  TransformPrimitive_default_value q = TransformPrimitive_default_value p)
           \<and> (\<forall>v. set_default_value p v = Inl AttributeError)"
proof -
  obtain bfs where b: "length (remdups (map entity bfs)) = 1" "base_features p = bfs"
    using assms TransformPrimitive_init_Inr by blast
  then obtain f fs where "bfs = f # fs" by (cases bfs) auto
  with b show ?thesis
    by (simp add: TransformPrimitive_default_value_def set_default_value_def)
qed

theorem default_value_of_first_base_feature_witness:
  "TransformPrimitive_init PrimitiveBase_init (new Absolute) [Feature amount_feature]
     = Inr \<lparr>cls = Absolute, base_features = [amount_feature], self_expanding = False,
            self_entity = Some 1, group_feature = None, list_of_outputs = None\<rparr>
   \<and> TransformPrimitive_default_value
        \<lparr>cls = Absolute, base_features = [amount_feature], self_expanding = False,
         self_entity = Some 1, group_feature = None, list_of_outputs = None\<rparr> = Inr 7
   \<and> base_features \<lparr>cls = Percentile, base_features = [amount_feature],
         self_expanding = True, self_entity = Some 1, group_feature = None,
         list_of_outputs = None\<rparr>
       = base_features \<lparr>cls = Absolute, base_features = [amount_feature],
         self_expanding = False, self_entity = Some 1, group_feature = None,
         list_of_outputs = None\<rparr>
   \<and> TransformPrimitive_default_value
        \<lparr>cls = Percentile, base_features = [amount_feature], self_expanding = True,
         self_entity = Some 1, group_feature = None, list_of_outputs = None\<rparr> = Inr 7
   \<and> set_default_value
        \<lparr>cls = Absolute, base_features = [amount_feature], self_expanding = False,
         self_entity = Some 1, group_feature = None, list_of_outputs = None\<rparr> 0
       = Inl AttributeError"
proof -
  let ?p = "\<lparr>cls = Absolute, base_features = [amount_feature], self_expanding = False,
            self_entity = Some (1::nat), group_feature = None, list_of_outputs = None\<rparr>"
  let ?q = "\<lparr>cls = Percentile, base_features = [amount_feature], self_expanding = True,
            self_entity = Some (1::nat), group_feature = None, list_of_outputs = None\<rparr>"
  have a: "TransformPrimitive_init PrimitiveBase_init (new Absolute) [Feature amount_feature]
     = Inr ?p"
    by (simp add: init_defs example_features)
  from default_value_of_first_base_feature [OF a]
  obtain f fs where h: "base_features ?p = f # fs"
    "TransformPrimitive_default_value ?p = Inr (default_value f)"
    "\<forall>q. base_features q = base_features ?p \<longrightarrow>
          TransformPrimitive_default_value q = TransformPrimitive_default_value ?p"
    "\<forall>v. set_default_value ?p v = Inl AttributeError"
    by blast
  from h(1) have f: "f = amount_feature" by simp
  have d: "TransformPrimitive_default_value ?p = Inr 7"
    using h(2) f by (simp add: amount_feature_def)
  have e: "base_features ?q = base_features ?p" by simp
  from h(3) e have "TransformPrimitive_default_value ?q = TransformPrimitive_default_value ?p"
    by blast
  with a d e h(4) show ?thesis by simp
qed

section \<open>The group feature of TimeSincePrevious\<close>

text \<open>
  Claim C7. When the group argument of \<^verbatim>\<open>TimeSincePrevious\<close> is coerced to a feature
  whose kind is not a subtype of Discrete, construction fails with the message
  "group_feature must have a discrete variable_type"; with a Discrete kind the check
  passes and construction continues in \<^verbatim>\<open>TransformPrimitive.__init__\<close>. The display
  name of a constructed instance is time_since_previous_by_ followed by the display name
  of the group feature.
\<close>

theorem TimeSincePrevious_group_feature_check:
  assumes "check_feature g = Inr gf"
  shows "TimeSincePrevious_init si self t g =
           (if issubclass (variable_type gf) Discrete
            then TransformPrimitive_init si (self\<lparr>group_feature := Some gf\<rparr>) [t, Feature gf]
            else Inl (AssertionError ''group_feature must have a discrete variable_type''))
       \<and> (cls self = TimeSincePrevious \<and> TimeSincePrevious_init si self t g = Inr p \<longrightarrow>
            get_name p = Inr (''time_since_previous_by_'' @ feature_name gf))"
proof
  show "TimeSincePrevious_init si self t g =
           (if issubclass (variable_type gf) Discrete
            then TransformPrimitive_init si (self\<lparr>group_feature := Some gf\<rparr>) [t, Feature gf]
            else Inl (AssertionError ''group_feature must have a discrete variable_type''))"
    using assms by (simp add: TimeSincePrevious_init_def)
next
  show "cls self = TimeSincePrevious \<and> TimeSincePrevious_init si self t g = Inr p \<longrightarrow>
            get_name p = Inr (''time_since_previous_by_'' @ feature_name gf)"
  proof
    assume h: "cls self = TimeSincePrevious \<and> TimeSincePrevious_init si self t g = Inr p"
    then obtain gf' where "check_feature g = Inr gf'" "group_feature p = Some gf'"
      "cls p = cls self"
      using TimeSincePrevious_init_Inr by blast
    with assms h show "get_name p = Inr (''time_since_previous_by_'' @ feature_name gf)"
      by (simp add: get_name_def TimeSincePrevious_get_name_def)
  qed
qed

theorem TimeSincePrevious_group_feature_check_witness:
  "check_feature (Feature customer_feature) = Inr customer_feature
   \<and> check_feature (Feature amount_feature) = Inr amount_feature
   \<and> cls (new TimeSincePrevious :: (nat, int) transform_primitive) = TimeSincePrevious
   \<and> TimeSincePrevious_init PrimitiveBase_init (new TimeSincePrevious)
        (Feature when_feature) (Feature customer_feature)
      = Inr \<lparr>cls = TimeSincePrevious, base_features = [when_feature, customer_feature],
             self_expanding = False, self_entity = Some 1,
             group_feature = Some customer_feature, list_of_outputs = None\<rparr>
   \<and> get_name \<lparr>cls = TimeSincePrevious, base_features = [when_feature, customer_feature],
             self_expanding = False, self_entity = Some 1,
             group_feature = Some customer_feature, list_of_outputs = None\<rparr>
      = Inr ''time_since_previous_by_customer_id''
   \<and> TimeSincePrevious_init PrimitiveBase_init (new TimeSincePrevious)
        (Feature when_feature) (Feature amount_feature)
      = Inl (AssertionError ''group_feature must have a discrete variable_type'')"
proof -
  let ?p = "\<lparr>cls = TimeSincePrevious, base_features = [when_feature, customer_feature],
             self_expanding = False, self_entity = Some (1::nat),
             group_feature = Some customer_feature, list_of_outputs = None\<rparr>"
  have c: "check_feature (Feature customer_feature) = Inr customer_feature" by simp
  have a: "check_feature (Feature amount_feature) = Inr amount_feature" by simp
  have k: "cls (new TimeSincePrevious :: (nat, int) transform_primitive) = TimeSincePrevious"
    by (simp add: new_def)
  have i: "TimeSincePrevious_init PrimitiveBase_init (new TimeSincePrevious)
        (Feature when_feature) (Feature customer_feature) = Inr ?p"
    by (simp add: TimeSincePrevious_init_def init_defs example_features)
  have dis: "\<not> issubclass (variable_type amount_feature) Discrete"
    by (simp add: issubclass_def amount_feature_def)
  note rc = TimeSincePrevious_group_feature_check
              [OF c, of PrimitiveBase_init "new TimeSincePrevious" "Feature when_feature" ?p]
  note ra = TimeSincePrevious_group_feature_check
              [OF a, of PrimitiveBase_init "new TimeSincePrevious" "Feature when_feature"]
  from rc k i have "get_name ?p = Inr (''time_since_previous_by_'' @ feature_name customer_feature)"
    by blast
  then have g: "get_name ?p = Inr ''time_since_previous_by_customer_id''"
    by (simp add: customer_feature_def)
  from ra dis have e: "TimeSincePrevious_init PrimitiveBase_init (new TimeSincePrevious)
        (Feature when_feature) (Feature amount_feature)
      = Inl (AssertionError ''group_feature must have a discrete variable_type'')"
    by simp
  from c a k i g e show ?thesis by blast
qed

section \<open>The unit base classes\<close>

text \<open>
  Claim C9 (amended). Neither \<^verbatim>\<open>DatetimeUnitBasePrimitive\<close> nor
  \<^verbatim>\<open>TimedeltaUnitBasePrimitive\<close> rejects direct construction: with the construction
  checks of the spec it succeeds or fails exactly as the construction of \<^verbatim>\<open>Day\<close>,
  respectively \<^verbatim>\<open>Days\<close>, on the same arguments. The instance has no name: computing
  its display name fails with AttributeError and calling its function fails with
  TypeError.
\<close>

theorem unit_base_classes_unusable:
  fixes p :: "('e, 'd) transform_primitive"
  shows "TransformPrimitive_init PrimitiveBase_init (new DatetimeUnitBasePrimitive) args
       = map_sum id (\<lambda>p. p\<lparr>cls := DatetimeUnitBasePrimitive\<rparr>)
           (TransformPrimitive_init PrimitiveBase_init (new Day) args)
   \<and> TransformPrimitive_init PrimitiveBase_init (new TimedeltaUnitBasePrimitive) args
       = map_sum id (\<lambda>p. p\<lparr>cls := TimedeltaUnitBasePrimitive\<rparr>)
           (TransformPrimitive_init PrimitiveBase_init (new Days) args)
   \<and> (TransformPrimitive_init si (new DatetimeUnitBasePrimitive) args' = Inr p \<longrightarrow>
        get_name p = Inl AttributeError
        \<and> DatetimeUnitBasePrimitive_get_function DatetimeIndex_getattr p array
            = Inl TypeError)
   \<and> (TransformPrimitive_init si (new TimedeltaUnitBasePrimitive) args' = Inr p \<longrightarrow>
        get_name p = Inl AttributeError
        \<and> TimedeltaUnitBasePrimitive_get_function p array = Inl TypeError)"
proof -
  have a: "TransformPrimitive_init PrimitiveBase_init (new DatetimeUnitBasePrimitive) args
       = map_sum id (\<lambda>p. p\<lparr>cls := DatetimeUnitBasePrimitive\<rparr>)
           (TransformPrimitive_init PrimitiveBase_init (new Day) args)"
    by (simp add: TransformPrimitive_init_def PrimitiveBase_init_def new_def Let_def
          split: sum.splits)
  have b: "TransformPrimitive_init PrimitiveBase_init (new TimedeltaUnitBasePrimitive) args
       = map_sum id (\<lambda>p. p\<lparr>cls := TimedeltaUnitBasePrimitive\<rparr>)
           (TransformPrimitive_init PrimitiveBase_init (new Days) args)"
    by (simp add: TransformPrimitive_init_def PrimitiveBase_init_def new_def Let_def
          split: sum.splits)
  have c: "cls p = DatetimeUnitBasePrimitive \<or> cls p = TimedeltaUnitBasePrimitive \<Longrightarrow>
        get_name p = Inl AttributeError
        \<and> DatetimeUnitBasePrimitive_get_function DatetimeIndex_getattr p array
            = Inl TypeError
        \<and> TimedeltaUnitBasePrimitive_get_function p array = Inl TypeError"
    by (auto simp: get_name_def TransformPrimitive_get_name_def
          DatetimeUnitBasePrimitive_get_function_def TimedeltaUnitBasePrimitive_get_function_def
          pd_time_unit_def)
  have d: "TransformPrimitive_init si (new c) args' = Inr p \<Longrightarrow> cls p = c" for c
    by (auto dest!: TransformPrimitive_init_Inr simp: new_def)
  from a b c d show ?thesis by blast
qed

theorem unit_base_classes_unusable_witness:
  "TransformPrimitive_init PrimitiveBase_init (new DatetimeUnitBasePrimitive)
       [Feature when_feature]
     = Inr \<lparr>cls = DatetimeUnitBasePrimitive, base_features = [when_feature],
            self_expanding = False, self_entity = Some 1, group_feature = None,
            list_of_outputs = None\<rparr>
   \<and> get_name \<lparr>cls = DatetimeUnitBasePrimitive, base_features = [when_feature],
            self_expanding = False, self_entity = Some 1, group_feature = None,
            list_of_outputs = None\<rparr> = Inl AttributeError
   \<and> DatetimeUnitBasePrimitive_get_function TimedeltaIndex_getattr
        \<lparr>cls = DatetimeUnitBasePrimitive, base_features = [when_feature],
            self_expanding = False, self_entity = Some 1, group_feature = None,
            list_of_outputs = None\<rparr> [Some 0] = Inl TypeError
   \<and> TransformPrimitive_init PrimitiveBase_init (new TimedeltaUnitBasePrimitive)
       [Feature duration_feature]
     = Inr \<lparr>cls = TimedeltaUnitBasePrimitive, base_features = [duration_feature],
            self_expanding = False, self_entity = Some 1, group_feature = None,
            list_of_outputs = None\<rparr>
   \<and> get_name \<lparr>cls = TimedeltaUnitBasePrimitive, base_features = [duration_feature],
            self_expanding = False, self_entity = Some 1, group_feature = None,
            list_of_outputs = None\<rparr> = Inl AttributeError
   \<and> TimedeltaUnitBasePrimitive_get_function
        \<lparr>cls = TimedeltaUnitBasePrimitive, base_features = [duration_feature],
            self_expanding = False, self_entity = Some 1, group_feature = None,
            list_of_outputs = None\<rparr> [Some 0] = Inl TypeError"
proof -
  let ?p = "\<lparr>cls = DatetimeUnitBasePrimitive, base_features = [when_feature],
            self_expanding = False, self_entity = Some (1::nat), group_feature = None,
            list_of_outputs = None\<rparr>"
  let ?q = "\<lparr>cls = TimedeltaUnitBasePrimitive, base_features = [duration_feature],
            self_expanding = False, self_entity = Some (1::nat), group_feature = None,
            list_of_outputs = None\<rparr>"
  have a: "TransformPrimitive_init PrimitiveBase_init (new DatetimeUnitBasePrimitive)
       [Feature when_feature] = Inr ?p"
    by (simp add: init_defs example_features)
  have b: "TransformPrimitive_init PrimitiveBase_init (new TimedeltaUnitBasePrimitive)
       [Feature duration_feature] = Inr ?q"
    by (simp add: init_defs example_features)
  from a unit_base_classes_unusable
         [where si = PrimitiveBase_init and args' = "[Feature when_feature]" and p = ?p
            and DatetimeIndex_getattr = TimedeltaIndex_getattr and array = "[Some 0]"]
  have c: "get_name ?p = Inl AttributeError
     \<and> DatetimeUnitBasePrimitive_get_function TimedeltaIndex_getattr ?p [Some 0] = Inl TypeError"
    by blast
  from b unit_base_classes_unusable
         [where si = PrimitiveBase_init and args' = "[Feature duration_feature]" and p = ?q
            and array = "[Some 0]"]
  have d: "get_name ?q = Inl AttributeError
     \<and> TimedeltaUnitBasePrimitive_get_function ?q [Some 0] = Inl TypeError"
    by blast
  from a b c d show ?thesis by blast
qed

text \<open>
  Claim C9 as stated fails: constructing either base class directly, over a feature of
  the kind its contract asks for, succeeds.
\<close>

theorem unit_base_class_construction_counterexample:
  "TransformPrimitive_init PrimitiveBase_init (new DatetimeUnitBasePrimitive)
       [Feature when_feature]
     = Inr \<lparr>cls = DatetimeUnitBasePrimitive, base_features = [when_feature],
            self_expanding = False, self_entity = Some 1, group_feature = None,
            list_of_outputs = None\<rparr>
   \<and> TransformPrimitive_init PrimitiveBase_init (new TimedeltaUnitBasePrimitive)
       [Feature duration_feature]
     = Inr \<lparr>cls = TimedeltaUnitBasePrimitive, base_features = [duration_feature],
            self_expanding = False, self_entity = Some 1, group_feature = None,
            list_of_outputs = None\<rparr>"
  by (simp add: init_defs example_features)

section \<open>The name of TimeSincePrevious and its time index\<close>

text \<open>
  Claim C10. The display name of a \<^verbatim>\<open>TimeSincePrevious\<close> instance does not depend on
  its time index: for two instances constructed with the same group argument,
  \<^verbatim>\<open>get_name\<close> returns the same string, whatever their time-index arguments are.
\<close>

theorem TimeSincePrevious_name_ignores_time_index:
  assumes "cls self1 = TimeSincePrevious" and "cls self2 = TimeSincePrevious"
    and "TimeSincePrevious_init si1 self1 t1 g = Inr p1"
    and "TimeSincePrevious_init si2 self2 t2 g = Inr p2"
  shows "\<exists>s. get_name p1 = Inr s \<and> get_name p2 = Inr s"
proof -
  obtain g1 where g1: "check_feature g = Inr g1" "group_feature p1 = Some g1" "cls p1 = cls self1"
    using assms(3) TimeSincePrevious_init_Inr by blast
  obtain g2 where g2: "check_feature g = Inr g2" "group_feature p2 = Some g2" "cls p2 = cls self2"
    using assms(4) TimeSincePrevious_init_Inr by blast
  from g1 g2 assms(1,2)
  have "get_name p1 = Inr (''time_since_previous_by_'' @ feature_name g1)"
    and "get_name p2 = Inr (''time_since_previous_by_'' @ feature_name g1)"
    by (simp_all add: get_name_def TimeSincePrevious_get_name_def)
  then show ?thesis by blast
qed

theorem TimeSincePrevious_name_ignores_time_index_witness:
  "cls (new TimeSincePrevious :: (nat, int) transform_primitive) = TimeSincePrevious
   \<and> TimeSincePrevious_init PrimitiveBase_init (new TimeSincePrevious)
        (Feature when_feature) (Feature customer_feature)
      = Inr \<lparr>cls = TimeSincePrevious, base_features = [when_feature, customer_feature],
             self_expanding = False, self_entity = Some 1,
             group_feature = Some customer_feature, list_of_outputs = None\<rparr>
   \<and> TimeSincePrevious_init PrimitiveBase_init (new TimeSincePrevious)
        (Feature updated_feature) (Feature customer_feature)
      = Inr \<lparr>cls = TimeSincePrevious, base_features = [updated_feature, customer_feature],
             self_expanding = False, self_entity = Some 1,
             group_feature = Some customer_feature, list_of_outputs = None\<rparr>
   \<and> when_feature \<noteq> updated_feature
   \<and> get_name \<lparr>cls = TimeSincePrevious, base_features = [when_feature, customer_feature],
             self_expanding = False, self_entity = Some 1,
             group_feature = Some customer_feature, list_of_outputs = None\<rparr>
     = Inr ''time_since_previous_by_customer_id''
   \<and> get_name \<lparr>cls = TimeSincePrevious,
             base_features = [updated_feature, customer_feature],
             self_expanding = False, self_entity = Some 1,
             group_feature = Some customer_feature, list_of_outputs = None\<rparr>
     = Inr ''time_since_previous_by_customer_id''"
proof -
  let ?p1 = "\<lparr>cls = TimeSincePrevious, base_features = [when_feature, customer_feature],
             self_expanding = False, self_entity = Some (1::nat),
             group_feature = Some customer_feature, list_of_outputs = None\<rparr>"
  let ?p2 = "\<lparr>cls = TimeSincePrevious, base_features = [updated_feature, customer_feature],
             self_expanding = False, self_entity = Some (1::nat),
             group_feature = Some customer_feature, list_of_outputs = None\<rparr>"
  have k: "cls (new TimeSincePrevious :: (nat, int) transform_primitive) = TimeSincePrevious"
    by (simp add: new_def)
  have a: "TimeSincePrevious_init PrimitiveBase_init (new TimeSincePrevious)
        (Feature when_feature) (Feature customer_feature) = Inr ?p1"
    by (simp add: TimeSincePrevious_init_def init_defs example_features)
  have b: "TimeSincePrevious_init PrimitiveBase_init (new TimeSincePrevious)
        (Feature updated_feature) (Feature customer_feature) = Inr ?p2"
    by (simp add: TimeSincePrevious_init_def init_defs example_features)
  have d: "when_feature \<noteq> updated_feature"
    by (simp add: example_features)
  from TimeSincePrevious_name_ignores_time_index [OF k k a b]
  obtain s where s: "get_name ?p1 = Inr s" "get_name ?p2 = Inr s" by blast
  have "get_name ?p1 = Inr ''time_since_previous_by_customer_id''"
    by (simp add: get_name_def TimeSincePrevious_get_name_def customer_feature_def)
  with s have "s = ''time_since_previous_by_customer_id''" by simp
  with s k a b d show ?thesis by blast
qed

end
